theory Spec2Isabelle
  imports Main
begin

section \<open>Session procurement and authorization injection (klein/_session.py)\<close>

subsection \<open>Byte strings and text\<close>

text \<open>
  A Python \<^verbatim>\<open>bytes\<close> value is a list of 8-bit characters, which is what a HOL
  \<^typ>\<open>string\<close> is. A Python \<^verbatim>\<open>str\<close> is a list of Unicode code points.
  The two are kept apart, since the source converts between them with
  \<^verbatim>\<open>decode('ascii')\<close> (line 134) and \<^verbatim>\<open>encode('utf-8')\<close> (line 208).
\<close>

type_synonym bytes = string
type_synonym str = "nat list"

text \<open>A text literal of the source, written with ASCII characters.\<close>

definition str_of :: "string \<Rightarrow> str" where
  "str_of s = map of_char s"

text \<open>\<^verbatim>\<open>bytes.decode('ascii')\<close>: every byte must be below 128, else UnicodeDecodeError.\<close>

definition decode_ascii :: "bytes \<Rightarrow> str option" where
  "decode_ascii b =
     (if list_all (\<lambda>c. (of_char c :: nat) < 128) b then Some (map of_char b) else None)"

text \<open>
  \<^verbatim>\<open>str.encode('utf-8')\<close>: one to four bytes per code point; a surrogate
  (D800 to DFFF) cannot be encoded and raises UnicodeEncodeError.
\<close>

definition utf8_char :: "nat \<Rightarrow> bytes option" where
  "utf8_char c =
     (if c < 128 then Some [char_of c]
      else if c < 2048 then Some [char_of (192 + c div 64), char_of (128 + c mod 64)]
      else if 55296 \<le> c \<and> c < 57344 then None
      else if c < 65536 then
        Some [char_of (224 + c div 4096), char_of (128 + c div 64 mod 64),
              char_of (128 + c mod 64)]
      else if c < 1114112 then
        Some [char_of (240 + c div 262144), char_of (128 + c div 4096 mod 64),
              char_of (128 + c div 64 mod 64), char_of (128 + c mod 64)]
      else None)"

fun encode_utf8 :: "str \<Rightarrow> bytes option" where
  "encode_utf8 [] = Some []"
| "encode_utf8 (c # cs) =
     (case utf8_char c of
        None \<Rightarrow> None
      | Some b \<Rightarrow> (case encode_utf8 cs of None \<Rightarrow> None | Some bs \<Rightarrow> Some (b @ bs)))"

subsection \<open>Collaborators: interfaces, sessions, the store, the request\<close>

text \<open>
  A zope interface, as far as \<^verbatim>\<open>twisted.python.reflect.qual\<close> reads it: the
  module and the name of the class.
\<close>

record Interface =
  moduleName :: str
  className :: str

definition qual :: "Interface \<Rightarrow> str" where
  "qual i = moduleName i @ str_of ''.'' @ className i"

datatype SessionMechanism = Header | Cookie

text \<open>
  \<^verbatim>\<open>ISession\<close>: the identifier, the two attributes the store sets, and the
  authorization surface, which maps each granted interface to its provider.
  \<open>'p\<close> is the type of providers.
\<close>

record 'p Session =
  "identifier" :: str
  isConfidential :: bool
  authenticatedBy :: SessionMechanism
  authorize :: "Interface list \<Rightarrow> (Interface \<rightharpoonup> 'p)"

text \<open>
  \<^verbatim>\<open>ISessionStore\<close> is an interface: its implementation is a parameter of the
  procurer. \<open>'st\<close> is the store's state, which every call may change.
  \<^verbatim>\<open>loadSession\<close> answers \<open>None\<close> where the implementation raises NoSuchSession.
\<close>

record ('p, 'st) SessionStore =
  loadSession :: "'st \<Rightarrow> str \<Rightarrow> bool \<Rightarrow> SessionMechanism \<Rightarrow> 'p Session option \<times> 'st"
  newSession :: "'st \<Rightarrow> bool \<Rightarrow> SessionMechanism \<Rightarrow> 'p Session \<times> 'st"
  sentInsecurely :: "'st \<Rightarrow> bytes list \<Rightarrow> 'st"

text \<open>The calls a procurement makes on the store, in the order it makes them.\<close>

datatype StoreCall =
  SentInsecurely "bytes list"
| LoadSession str bool SessionMechanism
| NewSession bool SessionMechanism

text \<open>The arguments of one \<^verbatim>\<open>request.addCookie\<close> call (lines 175 to 179).\<close>

record SetCookie =
  cookieKey :: bytes
  cookieValue :: str
  max_age :: int
  domain :: "bytes option"
  path :: bytes
  secure :: bool
  httpOnly :: bool

text \<open>
  The request, as far as the source reads and writes it. \<open>requestHeaders\<close> gives the
  values sent under a header name (none when the header is absent),
  \<open>received_cookies\<close> the cookie sent under a name, \<open>sessionComponent\<close> is the
  component stored under \<^verbatim>\<open>ISession\<close>, \<open>cookies\<close> collects the cookies added
  to the response and \<open>code\<close> is the response status.
\<close>

record 'p request =
  isSecure :: bool
  "method" :: bytes
  requestHeaders :: "bytes \<Rightarrow> bytes list"
  received_cookies :: "bytes \<rightharpoonup> bytes"
  startedWriting :: bool
  sessionComponent :: "'p Session option"
  cookies :: "SetCookie list"
  code :: nat

definition getComponent :: "'p request \<Rightarrow> 'p Session option" where
  "getComponent request = sessionComponent request"

definition setComponent :: "'p request \<Rightarrow> 'p Session \<Rightarrow> 'p request" where
  "setComponent request session = request\<lparr>sessionComponent := Some session\<rparr>"

definition getRawHeaders :: "'p request \<Rightarrow> bytes \<Rightarrow> bytes list" where
  "getRawHeaders request header = requestHeaders request header"

text \<open>\<^verbatim>\<open>request.getHeader\<close>: the last value sent under the name, if any.\<close>

definition getHeader :: "'p request \<Rightarrow> bytes \<Rightarrow> bytes option" where
  "getHeader request key =
     (case requestHeaders request key of [] \<Rightarrow> None | x # xs \<Rightarrow> Some (last (x # xs)))"

definition getCookie :: "'p request \<Rightarrow> bytes \<Rightarrow> bytes option" where
  "getCookie request key = received_cookies request key"

definition addCookie ::
  "'p request \<Rightarrow> bytes \<Rightarrow> str \<Rightarrow> int \<Rightarrow> bytes option \<Rightarrow> bytes \<Rightarrow> bool \<Rightarrow> bool \<Rightarrow> 'p request" where
  "addCookie request k v age dmn pth sec ho =
     request\<lparr>cookies := cookies request @
       [\<lparr>cookieKey = k, cookieValue = v, max_age = age, domain = dmn, path = pth,
         secure = sec, httpOnly = ho\<rparr>]\<rparr>"

definition setResponseCode :: "'p request \<Rightarrow> nat \<Rightarrow> 'p request" where
  "setResponseCode request c = request\<lparr>code := c\<rparr>"

subsection \<open>Errors\<close>

text \<open>The resource an \<^verbatim>\<open>EarlyExit\<close> carries (lines 199 to 208).\<close>

datatype AuthorizationDenied = AuthorizationDenied Interface

datatype error =
  NoSuchSession
| TooLateForCookies string
| UnicodeDecodeError
| UnicodeEncodeError
| TypeError
| EarlyExit AuthorizationDenied

subsection \<open>SessionProcurer\<close>

record ('p, 'st) SessionProcurer =
  store :: "('p, 'st) SessionStore"
  maxAge :: int
  secureCookie :: bytes
  insecureCookie :: bytes
  cookieDomain :: "bytes option"
  cookiePath :: bytes
  secureTokenHeader :: bytes
  insecureTokenHeader :: bytes
  setCookieOnGET :: bool

text \<open>
  The constructor that \<^verbatim>\<open>attr.s\<close> generates from lines 77 to 88: it stores its
  arguments. No attribute declares a validator, so no argument is rejected.
\<close>

definition SessionProcurer_init ::
  "('p, 'st) SessionStore \<Rightarrow> int \<Rightarrow> bytes \<Rightarrow> bytes \<Rightarrow> bytes option \<Rightarrow> bytes \<Rightarrow> bytes \<Rightarrow> bytes
     \<Rightarrow> bool \<Rightarrow> error + ('p, 'st) SessionProcurer" where
  "SessionProcurer_init st age sc ic cd cp sh ih og =
     Inr \<lparr>store = st, maxAge = age, secureCookie = sc, insecureCookie = ic,
          cookieDomain = cd, cookiePath = cp, secureTokenHeader = sh,
          insecureTokenHeader = ih, setCookieOnGET = og\<rparr>"

text \<open>The defaults of lines 79 to 88.\<close>

definition SessionProcurer_default :: "('p, 'st) SessionStore \<Rightarrow> error + ('p, 'st) SessionProcurer" where
  "SessionProcurer_default st =
     SessionProcurer_init st 3600 ''Klein-Secure-Session'' ''Klein-INSECURE-Session'' None ''/''
       ''X-Auth-Token'' ''X-INSECURE-Auth-Token'' True"

text \<open>
  Lines 109 to 116: every value sent under either token header, then every cookie sent
  under either cookie name that is neither missing nor empty (\<^verbatim>\<open>if it\<close>).
\<close>

definition allPossibleSentTokens :: "('p, 'st) SessionProcurer \<Rightarrow> 'p request \<Rightarrow> bytes list" where
  "allPossibleSentTokens self request =
     concat (map (getRawHeaders request) [secureTokenHeader self, insecureTokenHeader self]) @
     concat (map (\<lambda>cookie. case getCookie request cookie of
                              None \<Rightarrow> [] | Some it \<Rightarrow> (if it = [] then [] else [it]))
                 [secureCookie self, insecureCookie self])"

text \<open>
  Lines 97 to 126: the header name, the cookie name and \<open>sentSecurely\<close>, with the
  store's state and the store calls made (one \<^verbatim>\<open>sentInsecurely\<close> on an insecure
  transport).
\<close>

definition classify ::
  "('p, 'st) SessionProcurer \<Rightarrow> 'p request \<Rightarrow> bool \<Rightarrow> 'st
     \<Rightarrow> bytes \<times> bytes \<times> bool \<times> 'st \<times> StoreCall list" where
  "classify self request forceInsecure st =
     (if isSecure request then
        (if forceInsecure then (insecureTokenHeader self, insecureCookie self, False, st, [])
         else (secureTokenHeader self, secureCookie self, True, st, []))
      else
        (let toks = allPossibleSentTokens self request
         in (insecureTokenHeader self, insecureCookie self, False,
             sentInsecurely (store self) st toks, [SentInsecurely toks])))"

text \<open>Lines 127 to 132: the header first, then the cookie.\<close>

definition extractIdentifier :: "'p request \<Rightarrow> bytes \<Rightarrow> bytes \<Rightarrow> bytes option \<times> SessionMechanism" where
  "extractIdentifier request tokenHeader cookieName =
     (case getHeader request tokenHeader of
        Some sessionID \<Rightarrow> (Some sessionID, Header)
      | None \<Rightarrow> (getCookie request cookieName, Cookie))"

text \<open>
  Lines 158 to 183, with a session in hand: the cookie for a changed or new
  identifier, the cache on the request, the result. \<open>sessionID\<close> is the identifier
  that was presented and loaded, or \<open>None\<close>.
\<close>

definition issueAndCache ::
  "('p, 'st) SessionProcurer \<Rightarrow> 'p request \<Rightarrow> bytes \<Rightarrow> bool \<Rightarrow> str option \<Rightarrow> 'p Session
     \<Rightarrow> (error + 'p Session option) \<times> 'p request" where
  "issueAndCache self request cookieName sentSecurely sessionID session =
     (if sessionID \<noteq> Some (identifier session) \<and> method request = ''GET'' \<and> setCookieOnGET self
         \<and> startedWriting request
      then (Inl (TooLateForCookies ''You tried changing a session ID to a new session ID too late in the request pipeline; the headers were already sent.''), request)
      else
        (let request1 =
               (if sessionID \<noteq> Some (identifier session) \<and> method request = ''GET''
                   \<and> setCookieOnGET self
                then addCookie request cookieName (identifier session) (maxAge self)
                       (cookieDomain self) (cookiePath self) sentSecurely True
                else request);
             request2 =
               (if sentSecurely \<or> \<not> isSecure request1 then setComponent request1 session
                else request1)
         in (Inr (Some session), request2)))"

text \<open>
  Lines 143 to 157 and on, with no identifier left: return none, fail, or ask the
  store for a new session and go on with lines 158 to 183.
\<close>

definition createSession ::
  "('p, 'st) SessionProcurer \<Rightarrow> 'p request \<Rightarrow> bytes \<Rightarrow> bool \<Rightarrow> SessionMechanism \<Rightarrow> 'st
     \<Rightarrow> (error + 'p Session option) \<times> 'p request \<times> 'st \<times> StoreCall list" where
  "createSession self request cookieName sentSecurely mechanism st =
     (if method request \<noteq> ''GET'' \<or> \<not> setCookieOnGET self then (Inr None, request, st, [])
      else if startedWriting request
      then (Inl (TooLateForCookies ''You tried initializing a cookie-based session too late in the request pipeline; the headers were already sent.''), request, st, [])
      else
        (case newSession (store self) st sentSecurely mechanism of
           (session, st1) \<Rightarrow>
             (case issueAndCache self request cookieName sentSecurely None session of
                (res, request1) \<Rightarrow> (res, request1, st1, [NewSession sentSecurely mechanism]))))"

text \<open>
  \<^verbatim>\<open>procureSession\<close> (lines 91 to 183). The result is what the call returns or
  raises, the request and the store's state as the call leaves them, and the store
  calls it made.
\<close>

definition procureSession ::
  "('p, 'st) SessionProcurer \<Rightarrow> 'p request \<Rightarrow> bool \<Rightarrow> 'st
     \<Rightarrow> (error + 'p Session option) \<times> 'p request \<times> 'st \<times> StoreCall list" where
  "procureSession self request forceInsecure st =
     (case getComponent request of
        Some alreadyProcured \<Rightarrow> (Inr (Some alreadyProcured), request, st, [])
      | None \<Rightarrow>
        (case classify self request forceInsecure st of
           (tokenHeader, cookieName, sentSecurely, st1, calls1) \<Rightarrow>
             (case extractIdentifier request tokenHeader cookieName of
                (None, mechanism) \<Rightarrow>
                  (case createSession self request cookieName sentSecurely mechanism st1 of
                     (res, request1, st2, calls2) \<Rightarrow> (res, request1, st2, calls1 @ calls2))
              | (Some raw, mechanism) \<Rightarrow>
                  (case decode_ascii raw of
                     None \<Rightarrow> (Inl UnicodeDecodeError, request, st1, calls1)
                   | Some sessionID \<Rightarrow>
                       (case loadSession (store self) st1 sessionID sentSecurely mechanism of
                          (Some session, st2) \<Rightarrow>
                            (case issueAndCache self request cookieName sentSecurely
                                    (Some sessionID) session of
                               (res, request1) \<Rightarrow>
                                 (res, request1, st2,
                                  calls1 @ [LoadSession sessionID sentSecurely mechanism]))
                        | (None, st2) \<Rightarrow>
                            (if mechanism = Header
                             then (Inl NoSuchSession, request, st2,
                                   calls1 @ [LoadSession sessionID sentSecurely mechanism])
                             else
                               (case createSession self request cookieName sentSecurely
                                       mechanism st2 of
                                  (res, request1, st3, calls3) \<Rightarrow>
                                    (res, request1, st3,
                                     calls1 @ [LoadSession sessionID sentSecurely mechanism]
                                       @ calls3))))))))"

subsection \<open>Authorization\<close>

text \<open>
  \<^verbatim>\<open>AuthorizationDenied.render\<close> (lines 205 to 208): the status is set first,
  then the body is formatted and encoded.
\<close>

definition UNAUTHORIZED :: nat where
  "UNAUTHORIZED = 401"

fun render :: "AuthorizationDenied \<Rightarrow> 'p request \<Rightarrow> (error + bytes) \<times> 'p request" where
  "render (AuthorizationDenied interface) request =
     (let request1 = setResponseCode request UNAUTHORIZED
      in (case encode_utf8 (qual interface @ str_of '' DENIED'') of
            None \<Rightarrow> (Inl UnicodeEncodeError, request1)
          | Some body \<Rightarrow> (Inr body, request1)))"

record Authorization =
  interface :: Interface
  required :: bool

definition Authorization_init :: "Interface \<Rightarrow> Authorization" where
  "Authorization_init i = \<lparr>interface = i, required = True\<rparr>"

definition optional :: "Interface \<Rightarrow> Authorization" where
  "optional i = \<lparr>interface = i, required = False\<rparr>"

text \<open>
  \<^verbatim>\<open>injectValue\<close> (lines 238 to 251). \<^verbatim>\<open>ISession(request)\<close> adapts the
  request to its session component and raises TypeError when there is none.
\<close>

definition injectValue :: "Authorization \<Rightarrow> 'p request \<Rightarrow> error + 'p option" where
  "injectValue self request =
     (case getComponent request of
        None \<Rightarrow> Inl TypeError
      | Some session \<Rightarrow>
          (let provider = authorize session [interface self] (interface self)
           in if required self \<and> provider = None
              then Inl (EarlyExit (AuthorizationDenied (interface self)))
              else Inr provider))"

subsection \<open>Concrete stores and requests\<close>

text \<open>
  An in-memory store to run the procurer on: its state is the list of the identifiers
  of its sessions, a new session is named after their number, and a load succeeds for
  the identifiers it holds.
\<close>

definition memorySession :: "str \<Rightarrow> bool \<Rightarrow> SessionMechanism \<Rightarrow> nat Session" where
  "memorySession sid sec mech =
     \<lparr>identifier = sid, isConfidential = sec, authenticatedBy = mech,
      authorize = (\<lambda>ifaces. Map.empty)\<rparr>"

definition memoryStore :: "(nat, str list) SessionStore" where
  "memoryStore =
     \<lparr>loadSession = (\<lambda>st sid sec mech.
        (if sid \<in> set st then Some (memorySession sid sec mech) else None, st)),
      newSession = (\<lambda>st sec mech.
        (memorySession (str_of ''s'' @ replicate (length st) 120) sec mech,
         st @ [str_of ''s'' @ replicate (length st) 120])),
      sentInsecurely = (\<lambda>st toks. st)\<rparr>"

text \<open>
  A store that answers every load with a session under a fresh identifier (the
  presented one followed by \<open>+\<close>), as a store that rotates identifiers does.
\<close>

definition rotatingStore :: "(nat, str list) SessionStore" where
  "rotatingStore =
     \<lparr>loadSession = (\<lambda>st sid sec mech. (Some (memorySession (sid @ str_of ''+'') sec mech), st)),
      newSession = (\<lambda>st sec mech.
        (memorySession (str_of ''s'' @ replicate (length st) 120) sec mech,
         st @ [str_of ''s'' @ replicate (length st) 120])),
      sentInsecurely = (\<lambda>st toks. st)\<rparr>"

text \<open>The procurer of a store with the default names of lines 79 to 88.\<close>

definition defaultProcurer :: "('p, 'st) SessionStore \<Rightarrow> ('p, 'st) SessionProcurer" where
  "defaultProcurer st =
     \<lparr>store = st, maxAge = 3600, secureCookie = ''Klein-Secure-Session'',
      insecureCookie = ''Klein-INSECURE-Session'', cookieDomain = None, cookiePath = ''/'',
      secureTokenHeader = ''X-Auth-Token'', insecureTokenHeader = ''X-INSECURE-Auth-Token'',
      setCookieOnGET = True\<rparr>"

text \<open>A request with no header, no cookie and no session, nothing written yet.\<close>

definition bareRequest :: "bool \<Rightarrow> bytes \<Rightarrow> nat request" where
  "bareRequest sec m =
     \<lparr>isSecure = sec, method = m, requestHeaders = (\<lambda>h. []), received_cookies = Map.empty,
      startedWriting = False, sessionComponent = None, cookies = [], code = 200\<rparr>"

text \<open>The same request with one more value sent under a header, or with a cookie.\<close>

definition withHeader :: "'p request \<Rightarrow> bytes \<Rightarrow> bytes \<Rightarrow> 'p request" where
  "withHeader request h v =
     request\<lparr>requestHeaders := (requestHeaders request)(h := requestHeaders request h @ [v])\<rparr>"

definition withCookie :: "'p request \<Rightarrow> bytes \<Rightarrow> bytes \<Rightarrow> 'p request" where
  "withCookie request k v = request\<lparr>received_cookies := (received_cookies request)(k \<mapsto> v)\<rparr>"

text \<open>An interface and a session that grants it, to run the injector on.\<close>

definition IAdmin :: Interface where
  "IAdmin = \<lparr>moduleName = str_of ''app'', className = str_of ''IAdmin''\<rparr>"

definition grantingSession :: "Interface \<Rightarrow> nat \<Rightarrow> nat Session" where
  "grantingSession i p =
     \<lparr>identifier = str_of ''s'', isConfidential = True, authenticatedBy = Cookie,
      authorize = (\<lambda>ifaces. if i \<in> set ifaces then [i \<mapsto> p] else Map.empty)\<rparr>"

section \<open>Properties\<close>

subsection \<open>Evaluation and auxiliary facts\<close>

lemmas run_defs =
  procureSession_def getComponent_def setComponent_def classify_def allPossibleSentTokens_def
  getRawHeaders_def getCookie_def getHeader_def extractIdentifier_def createSession_def
  issueAndCache_def addCookie_def decode_ascii_def Let_def memoryStore_def memorySession_def
  rotatingStore_def defaultProcurer_def bareRequest_def str_of_def withHeader_def
  withCookie_def

lemma extractIdentifier_None_Cookie:
  "extractIdentifier request th cn = (None, m) \<Longrightarrow> m = Cookie"
  by (auto simp: extractIdentifier_def split: option.splits)

lemma extractIdentifier_Header:
  "extractIdentifier request th cn = (Some raw, Header) \<longleftrightarrow> getHeader request th = Some raw"
  by (auto simp: extractIdentifier_def split: option.splits)

lemma classify_calls:
  "classify self request force st = (th, cn, ss, st1, calls1) \<Longrightarrow>
     calls1 = (if isSecure request then [] else [SentInsecurely (allPossibleSentTokens self request)])"
  by (auto simp: classify_def Let_def split: if_splits)

lemma classify_sentSecurely:
  "classify self request force st = (th, cn, ss, st1, calls1) \<Longrightarrow>
     ss = (isSecure request \<and> \<not> force)"
  by (auto simp: classify_def Let_def split: if_splits)

lemma createSession_calls:
  "createSession self request cn ss m st = (res, r1, st1, calls) \<Longrightarrow>
     calls = [] \<or> calls = [NewSession ss m]"
  by (auto simp: createSession_def split: if_splits prod.splits)

lemma issueAndCache_cached:
  "issueAndCache self request cn ss sidopt session = (Inr (Some s), request1) \<Longrightarrow>
     ss \<or> \<not> isSecure request \<Longrightarrow> s = session \<and> getComponent request1 = Some session"
  by (auto simp: issueAndCache_def Let_def setComponent_def addCookie_def getComponent_def
      split: if_splits)

lemma createSession_cached:
  "createSession self request cn ss m st = (Inr (Some s), request1, st1, calls) \<Longrightarrow>
     ss \<or> \<not> isSecure request \<Longrightarrow> getComponent request1 = Some s"
  by (auto simp: createSession_def split: if_splits prod.splits dest: issueAndCache_cached)

lemma procureSession_cached:
  "getComponent request = Some s \<Longrightarrow>
     procureSession self request force st = (Inr (Some s), request, st, [])"
  by (simp add: procureSession_def)

lemma procureSession_caches:
  assumes "procureSession self request force st = (Inr (Some s), request1, st1, calls)"
    and "\<not> force \<or> \<not> isSecure request"
  shows "getComponent request1 = Some s"
proof (cases "getComponent request")
  case (Some a)
  with assms show ?thesis by (simp add: procureSession_def)
next
  case None
  obtain th cn ss st0 calls0 where c: "classify self request force st = (th, cn, ss, st0, calls0)"
    by (cases "classify self request force st") auto
  from classify_sentSecurely [OF c] assms(2) have ss: "ss \<or> \<not> isSecure request" by auto
  from assms(1) None c ss show ?thesis
    by (auto simp: procureSession_def split: option.splits prod.splits if_splits
        dest: issueAndCache_cached createSession_cached)
qed







lemma issueAndCache_started:
  "issueAndCache self request cn ss sidopt session = (res, request1) \<Longrightarrow>
   startedWriting request \<Longrightarrow> cookies request1 = cookies request"
  by (auto simp: issueAndCache_def Let_def setComponent_def addCookie_def split: if_splits)

lemma issueAndCache_started_changed:
  "startedWriting request \<Longrightarrow> method request = ''GET'' \<Longrightarrow> setCookieOnGET self \<Longrightarrow>
   sidopt \<noteq> Some (identifier session) \<Longrightarrow>
     \<exists>msg. fst (issueAndCache self request cn ss sidopt session) = Inl (TooLateForCookies msg)"
  by (simp add: issueAndCache_def)

lemma createSession_started:
  "startedWriting request \<Longrightarrow>
     createSession self request cn ss m st =
       (if method request \<noteq> ''GET'' \<or> \<not> setCookieOnGET self then (Inr None, request, st, [])
        else (Inl (TooLateForCookies ''You tried initializing a cookie-based session too late in the request pipeline; the headers were already sent.''), request, st, []))"
  by (simp add: createSession_def)

lemma procureSession_started_cookies:
  assumes "startedWriting request"
  shows "cookies (fst (snd (procureSession self request force st))) = cookies request"
proof (cases "getComponent request")
  case (Some a)
  then show ?thesis by (simp add: procureSession_def)
next
  case None
  with assms show ?thesis
    by (auto simp: procureSession_def createSession_started
        split: option.splits prod.splits dest: issueAndCache_started)
qed

lemma classify_no_NewSession:
  "classify self request force st = (th, cn, ss, st1, calls1) \<Longrightarrow>
     NewSession sec m \<in> set calls1 \<Longrightarrow> False"
  by (auto simp: classify_def Let_def split: if_splits)

lemma procureSession_started_no_new:
  assumes "startedWriting request"
  shows "NewSession sec m \<notin> set (snd (snd (snd (procureSession self request force st))))"
proof (cases "getComponent request")
  case (Some a)
  then show ?thesis by (simp add: procureSession_def)
next
  case None
  with assms show ?thesis
    by (auto simp: procureSession_def createSession_started
        split: option.splits prod.splits dest: classify_no_NewSession)
qed

lemma procureSession_started_attempt:
  assumes "startedWriting request" and "getComponent request = None"
    and "classify self request force st = (th, cn, ss, st1, calls1)"
    and "method request = ''GET''" and "setCookieOnGET self"
    and "extractIdentifier request th cn = (None, Cookie)
         \<or> (\<exists>raw sid st2. extractIdentifier request th cn = (Some raw, Cookie)
               \<and> decode_ascii raw = Some sid
               \<and> loadSession (store self) st1 sid ss Cookie = (None, st2))
         \<or> (\<exists>raw mech sid session st2. extractIdentifier request th cn = (Some raw, mech)
               \<and> decode_ascii raw = Some sid
               \<and> loadSession (store self) st1 sid ss mech = (Some session, st2)
               \<and> identifier session \<noteq> sid)"
  shows "\<exists>msg. fst (procureSession self request force st) = Inl (TooLateForCookies msg)"
  using assms(6)
proof (elim disjE exE conjE)
  assume "extractIdentifier request th cn = (None, Cookie)"
  with assms(1-5) show ?thesis
    by (simp add: procureSession_def createSession_started)
next
  fix raw sid st2
  assume "extractIdentifier request th cn = (Some raw, Cookie)" "decode_ascii raw = Some sid"
    "loadSession (store self) st1 sid ss Cookie = (None, st2)"
  with assms(1-5) show ?thesis
    by (simp add: procureSession_def createSession_started)
next
  fix raw mech sid session st2
  assume a: "extractIdentifier request th cn = (Some raw, mech)" "decode_ascii raw = Some sid"
    "loadSession (store self) st1 sid ss mech = (Some session, st2)" "identifier session \<noteq> sid"
  from a(4) have "Some sid \<noteq> Some (identifier session)" by auto
  from issueAndCache_started_changed [OF assms(1) assms(4) assms(5) this, of cn ss]
  obtain msg where "fst (issueAndCache self request cn ss (Some sid) session) = Inl (TooLateForCookies msg)"
    by blast
  with assms(1-5) a show ?thesis
    by (auto simp: procureSession_def split: prod.splits)
qed

subsection \<open>Construction of the configuration\<close>

text \<open>
  C6 (as the code has it). Constructing a SessionProcurer validates nothing: for every
  choice of arguments the construction succeeds and the configuration holds the cookie
  and header names exactly as given, whether or not the secure and the insecure names
  differ.
\<close>

theorem SessionProcurer_init_accepts_all:
  "\<exists>p. SessionProcurer_init st age sc ic cd cp sh ih og = Inr p
       \<and> secureCookie p = sc \<and> insecureCookie p = ic
       \<and> secureTokenHeader p = sh \<and> insecureTokenHeader p = ih"
  by (simp add: SessionProcurer_init_def)

text \<open>
  C6 as stated fails: a construction in which the secure and the insecure cookie share
  one name, and the two headers another, does not fail.
\<close>

theorem SessionProcurer_init_equal_names_counterexample:
  "SessionProcurer_init memoryStore 3600 ''Same-Cookie'' ''Same-Cookie'' None ''/''
       ''Same-Header'' ''Same-Header'' True =
     Inr \<lparr>store = memoryStore, maxAge = 3600, secureCookie = ''Same-Cookie'',
          insecureCookie = ''Same-Cookie'', cookieDomain = None, cookiePath = ''/'',
          secureTokenHeader = ''Same-Header'', insecureTokenHeader = ''Same-Header'',
          setCookieOnGET = True\<rparr>"
  by (simp add: SessionProcurer_init_def)

subsection \<open>Identifiers that are not ASCII\<close>

text \<open>
  C1 (as the code has it). For every request with no session cached on it that presents
  an identifier, by header or by cookie, whose bytes are not all ASCII,
  \<^verbatim>\<open>procureSession\<close> raises the decoding error of line 134: the identifier is
  not treated as absent. The request is left as it was (no cookie, no cached session)
  and the only store call made is the \<^verbatim>\<open>sentInsecurely\<close> of an insecure
  transport: no session is loaded or created.
\<close>

theorem procureSession_non_ascii_raises:
  assumes "getComponent request = None"
    and "classify self request force st = (th, cn, ss, st1, calls1)"
    and "extractIdentifier request th cn = (Some raw, mech)"
    and "decode_ascii raw = None"
  shows "procureSession self request force st = (Inl UnicodeDecodeError, request, st1, calls1)
         \<and> (\<forall>c \<in> set calls1. \<exists>toks. c = SentInsecurely toks)"
  using assms classify_calls [OF assms(2)] by (simp add: procureSession_def)

theorem procureSession_non_ascii_raises_witness:
  "getComponent (withHeader (bareRequest False ''GET'') ''X-INSECURE-Auth-Token'' [CHR 0xC3, CHR 0xA9]) = None
   \<and> classify (defaultProcurer memoryStore)
        (withHeader (bareRequest False ''GET'') ''X-INSECURE-Auth-Token'' [CHR 0xC3, CHR 0xA9]) False []
       = (''X-INSECURE-Auth-Token'', ''Klein-INSECURE-Session'', False, [],
          [SentInsecurely [[CHR 0xC3, CHR 0xA9]]])
   \<and> extractIdentifier
        (withHeader (bareRequest False ''GET'') ''X-INSECURE-Auth-Token'' [CHR 0xC3, CHR 0xA9])
        ''X-INSECURE-Auth-Token'' ''Klein-INSECURE-Session''
       = (Some [CHR 0xC3, CHR 0xA9], Header)
   \<and> decode_ascii [CHR 0xC3, CHR 0xA9] = None
   \<and> procureSession (defaultProcurer memoryStore)
        (withHeader (bareRequest False ''GET'') ''X-INSECURE-Auth-Token'' [CHR 0xC3, CHR 0xA9]) False []
       = (Inl UnicodeDecodeError,
          withHeader (bareRequest False ''GET'') ''X-INSECURE-Auth-Token'' [CHR 0xC3, CHR 0xA9],
          [], [SentInsecurely [[CHR 0xC3, CHR 0xA9]]])"
proof -
  let ?R = "withHeader (bareRequest False ''GET'') ''X-INSECURE-Auth-Token'' [CHR 0xC3, CHR 0xA9]"
  let ?P = "defaultProcurer memoryStore :: (nat, str list) SessionProcurer"
  have h1: "getComponent ?R = None" by (simp add: run_defs)
  have h2: "classify ?P ?R False [] =
      (''X-INSECURE-Auth-Token'', ''Klein-INSECURE-Session'', False, [],
       [SentInsecurely [[CHR 0xC3, CHR 0xA9]]])"
    by (simp add: run_defs)
  have h3: "extractIdentifier ?R ''X-INSECURE-Auth-Token'' ''Klein-INSECURE-Session'' =
      (Some [CHR 0xC3, CHR 0xA9], Header)"
    by (simp add: run_defs)
  have h4: "decode_ascii [CHR 0xC3, CHR 0xA9] = None" by (simp add: run_defs)
  from procureSession_non_ascii_raises [OF h1 h2 h3 h4] h1 h2 h3 h4 show ?thesis by simp
qed

text \<open>
  C1 as stated fails: a GET request over a secure transport whose session cookie is the
  single byte FF is not handled as a request without identifier (which would get a new
  session here); the decoding error escapes and no session is created.
\<close>

theorem procureSession_non_ascii_counterexample:
  "procureSession (defaultProcurer memoryStore)
     (withCookie (bareRequest True ''GET'') ''Klein-Secure-Session'' [CHR 0xFF]) False [] =
   (Inl UnicodeDecodeError,
    withCookie (bareRequest True ''GET'') ''Klein-Secure-Session'' [CHR 0xFF], [], [])"
  by (simp add: run_defs)

subsection \<open>Procuring twice\<close>

text \<open>
  C2 (as the code has it). Whenever a call of \<^verbatim>\<open>procureSession\<close> returns a
  session and either \<open>forceInsecure\<close> is false or the transport is not secure, a
  second call on the request as the first call left it, with the same arguments, returns
  the identical session, makes no store call and changes neither the request nor the
  store. (With \<open>forceInsecure\<close> on a secure transport line 180 does not cache the
  session, so nothing is promised there.)
\<close>

theorem procureSession_twice_cached:
  "procureSession self request force st = (Inr (Some s), request1, st1, calls) \<Longrightarrow>
   \<not> force \<or> \<not> isSecure request \<Longrightarrow>
   procureSession self request1 force st1 = (Inr (Some s), request1, st1, [])"
  by (rule procureSession_cached) (rule procureSession_caches)

theorem procureSession_twice_cached_witness:
  "procureSession (defaultProcurer memoryStore) (bareRequest False ''GET'') False [] =
     (Inr (Some (memorySession (str_of ''s'') False Cookie)),
      setComponent
        (addCookie (bareRequest False ''GET'') ''Klein-INSECURE-Session'' (str_of ''s'') 3600
           None ''/'' False True)
        (memorySession (str_of ''s'') False Cookie),
      [str_of ''s''], [SentInsecurely [], NewSession False Cookie])
   \<and> \<not> isSecure (bareRequest False ''GET'')
   \<and> procureSession (defaultProcurer memoryStore)
       (setComponent
          (addCookie (bareRequest False ''GET'') ''Klein-INSECURE-Session'' (str_of ''s'') 3600
             None ''/'' False True)
          (memorySession (str_of ''s'') False Cookie))
       False [str_of ''s''] =
     (Inr (Some (memorySession (str_of ''s'') False Cookie)),
      setComponent
        (addCookie (bareRequest False ''GET'') ''Klein-INSECURE-Session'' (str_of ''s'') 3600
           None ''/'' False True)
        (memorySession (str_of ''s'') False Cookie),
      [str_of ''s''], [])"
proof -
  let ?P = "defaultProcurer memoryStore :: (nat, str list) SessionProcurer"
  have h1: "procureSession ?P (bareRequest False ''GET'') False [] =
     (Inr (Some (memorySession (str_of ''s'') False Cookie)),
      setComponent
        (addCookie (bareRequest False ''GET'') ''Klein-INSECURE-Session'' (str_of ''s'') 3600
           None ''/'' False True)
        (memorySession (str_of ''s'') False Cookie),
      [str_of ''s''], [SentInsecurely [], NewSession False Cookie])"
    by (simp add: run_defs)
  have h2: "\<not> False \<or> \<not> isSecure (bareRequest False ''GET'')" by simp
  have h3: "\<not> isSecure (bareRequest False ''GET'')" by (simp add: bareRequest_def)
  from procureSession_twice_cached [OF h1 h2] h1 h3 show ?thesis by simp
qed

text \<open>
  C2 as stated fails with \<open>forceInsecure\<close> on a secure transport: the first call
  creates a session and does not cache it, and the second call on the request it left
  asks the store for another session, which is a different one.
\<close>

theorem procureSession_twice_forceInsecure_counterexample:
  "procureSession (defaultProcurer memoryStore) (bareRequest True ''GET'') True [] =
     (Inr (Some (memorySession (str_of ''s'') False Cookie)),
      addCookie (bareRequest True ''GET'') ''Klein-INSECURE-Session'' (str_of ''s'') 3600 None
        ''/'' False True,
      [str_of ''s''], [NewSession False Cookie])
   \<and> procureSession (defaultProcurer memoryStore)
       (addCookie (bareRequest True ''GET'') ''Klein-INSECURE-Session'' (str_of ''s'') 3600 None
          ''/'' False True)
       True [str_of ''s''] =
     (Inr (Some (memorySession (str_of ''sx'') False Cookie)),
      addCookie
        (addCookie (bareRequest True ''GET'') ''Klein-INSECURE-Session'' (str_of ''s'') 3600 None
           ''/'' False True)
        ''Klein-INSECURE-Session'' (str_of ''sx'') 3600 None ''/'' False True,
      [str_of ''s'', str_of ''sx''], [NewSession False Cookie])
   \<and> memorySession (str_of ''s'') False Cookie \<noteq> memorySession (str_of ''sx'') False Cookie"
  by (simp add: run_defs)

subsection \<open>A header identifier that loads\<close>

text \<open>
  C3 (as the code has it). For every request with no session cached on it that presents
  an ASCII identifier in the token header, if the store's \<^verbatim>\<open>loadSession\<close>
  succeeds with a session that keeps the presented identifier, then
  \<^verbatim>\<open>procureSession\<close> returns that session, whose identifier is the presented
  value, and writes no cookie during the procurement.
\<close>

theorem procureSession_header_loaded:
  assumes "getComponent request = None"
    and "classify self request force st = (th, cn, ss, st1, calls1)"
    and "getHeader request th = Some raw"
    and "decode_ascii raw = Some sid"
    and "loadSession (store self) st1 sid ss Header = (Some session, st2)"
    and "identifier session = sid"
  shows "procureSession self request force st =
           (Inr (Some session),
            (if ss \<or> \<not> isSecure request then setComponent request session else request),
            st2, calls1 @ [LoadSession sid ss Header])
         \<and> cookies (fst (snd (procureSession self request force st))) = cookies request"
proof -
  from assms(3) have e: "extractIdentifier request th cn = (Some raw, Header)"
    by (simp add: extractIdentifier_Header)
  from assms(6) have i: "issueAndCache self request cn ss (Some sid) session =
      (Inr (Some session),
       (if ss \<or> \<not> isSecure request then setComponent request session else request))"
    by (simp add: issueAndCache_def Let_def)
  from assms e i have p: "procureSession self request force st =
           (Inr (Some session),
            (if ss \<or> \<not> isSecure request then setComponent request session else request),
            st2, calls1 @ [LoadSession sid ss Header])"
    by (simp add: procureSession_def)
  then show ?thesis by (simp add: setComponent_def)
qed

theorem procureSession_header_loaded_witness:
  "getComponent (withHeader (bareRequest True ''GET'') ''X-Auth-Token'' ''abc'') = None
   \<and> classify (defaultProcurer memoryStore)
        (withHeader (bareRequest True ''GET'') ''X-Auth-Token'' ''abc'') False [str_of ''abc'']
       = (''X-Auth-Token'', ''Klein-Secure-Session'', True, [str_of ''abc''], [])
   \<and> getHeader (withHeader (bareRequest True ''GET'') ''X-Auth-Token'' ''abc'') ''X-Auth-Token''
       = Some ''abc''
   \<and> decode_ascii ''abc'' = Some (str_of ''abc'')
   \<and> loadSession (store (defaultProcurer memoryStore)) [str_of ''abc''] (str_of ''abc'') True
        Header
       = (Some (memorySession (str_of ''abc'') True Header), [str_of ''abc''])
   \<and> identifier (memorySession (str_of ''abc'') True Header) = str_of ''abc''
   \<and> procureSession (defaultProcurer memoryStore)
        (withHeader (bareRequest True ''GET'') ''X-Auth-Token'' ''abc'') False [str_of ''abc'']
       = (Inr (Some (memorySession (str_of ''abc'') True Header)),
          setComponent (withHeader (bareRequest True ''GET'') ''X-Auth-Token'' ''abc'')
            (memorySession (str_of ''abc'') True Header),
          [str_of ''abc''], [LoadSession (str_of ''abc'') True Header])
   \<and> cookies (fst (snd (procureSession (defaultProcurer memoryStore)
        (withHeader (bareRequest True ''GET'') ''X-Auth-Token'' ''abc'') False [str_of ''abc''])))
       = []"
proof -
  let ?R = "withHeader (bareRequest True ''GET'') ''X-Auth-Token'' ''abc''"
  let ?P = "defaultProcurer memoryStore :: (nat, str list) SessionProcurer"
  have h1: "getComponent ?R = None" by (simp add: run_defs)
  have h2: "classify ?P ?R False [str_of ''abc''] =
      (''X-Auth-Token'', ''Klein-Secure-Session'', True, [str_of ''abc''], [])"
    by (simp add: run_defs)
  have h3: "getHeader ?R ''X-Auth-Token'' = Some ''abc''" by (simp add: run_defs)
  have h4: "decode_ascii ''abc'' = Some (str_of ''abc'')" by (simp add: run_defs)
  have h5: "loadSession (store ?P) [str_of ''abc''] (str_of ''abc'') True Header
       = (Some (memorySession (str_of ''abc'') True Header), [str_of ''abc''])"
    by (simp add: run_defs)
  have h6: "identifier (memorySession (str_of ''abc'') True Header) = str_of ''abc''"
    by (simp add: run_defs)
  have c: "cookies ?R = []" by (simp add: run_defs)
  from procureSession_header_loaded [OF h1 h2 h3 h4 h5 h6] h1 h2 h3 h4 h5 h6 c
  show ?thesis by (simp add: setComponent_def)
qed

text \<open>
  C3 as stated fails when the store answers the load with a session under another
  identifier, which lines 163 to 168 provide for: on a GET with the token header
  \<open>abc\<close> the returned session is named \<open>abc+\<close> and a cookie carrying that
  identifier is written.
\<close>

theorem procureSession_header_rotated_counterexample:
  "procureSession (defaultProcurer rotatingStore)
     (withHeader (bareRequest True ''GET'') ''X-Auth-Token'' ''abc'') False [] =
   (Inr (Some (memorySession (str_of ''abc+'') True Header)),
    setComponent
      (addCookie (withHeader (bareRequest True ''GET'') ''X-Auth-Token'' ''abc'')
         ''Klein-Secure-Session'' (str_of ''abc+'') 3600 None ''/'' True True)
      (memorySession (str_of ''abc+'') True Header),
    [], [LoadSession (str_of ''abc'') True Header])
   \<and> identifier (memorySession (str_of ''abc+'') True Header) \<noteq> str_of ''abc''"
  by (simp add: run_defs)

subsection \<open>Authorization\<close>

text \<open>
  C4. On a request that carries its procured session: an Authorization with
  \<open>required\<close> true whose interface is absent from what the session's
  \<^verbatim>\<open>authorize\<close> answers makes \<^verbatim>\<open>injectValue\<close> raise an EarlyExit
  carrying an AuthorizationDenied resource for that interface; rendering that resource
  sets the status 401, and its body is exactly the bytes of the qualified name of the
  interface followed by \<open> DENIED\<close>. An Authorization with \<open>required\<close> false
  never fails there: \<^verbatim>\<open>injectValue\<close> returns the provider, or \<open>None\<close> when
  there is none.
\<close>

theorem injectValue_denied_or_provider:
  assumes "getComponent request = Some session"
  shows "(required self \<and> authorize session [interface self] (interface self) = None \<longrightarrow>
            injectValue self request = Inl (EarlyExit (AuthorizationDenied (interface self)))
            \<and> code (snd (render (AuthorizationDenied (interface self)) rq)) = 401
            \<and> (\<forall>body. encode_utf8 (qual (interface self) @ str_of '' DENIED'') = Some body \<longrightarrow>
                 render (AuthorizationDenied (interface self)) rq =
                   (Inr body, rq\<lparr>code := 401\<rparr>)))
       \<and> (\<not> required self \<longrightarrow>
            injectValue self request = Inr (authorize session [interface self] (interface self)))"
  using assms
  by (auto simp: injectValue_def Let_def setResponseCode_def UNAUTHORIZED_def split: option.splits)

theorem injectValue_denied_or_provider_witness:
  "getComponent (setComponent (bareRequest True ''POST'') (memorySession (str_of ''s'') True Cookie))
     = Some (memorySession (str_of ''s'') True Cookie)
   \<and> required (Authorization_init IAdmin)
   \<and> authorize (memorySession (str_of ''s'') True Cookie) [IAdmin] IAdmin = None
   \<and> injectValue (Authorization_init IAdmin)
        (setComponent (bareRequest True ''POST'') (memorySession (str_of ''s'') True Cookie))
       = Inl (EarlyExit (AuthorizationDenied IAdmin))
   \<and> encode_utf8 (qual IAdmin @ str_of '' DENIED'') = Some ''app.IAdmin DENIED''
   \<and> render (AuthorizationDenied IAdmin) (bareRequest True ''POST'')
       = (Inr ''app.IAdmin DENIED'', (bareRequest True ''POST'')\<lparr>code := 401\<rparr>)
   \<and> getComponent (setComponent (bareRequest True ''POST'') (grantingSession IAdmin 7))
       = Some (grantingSession IAdmin 7)
   \<and> \<not> required (optional IAdmin)
   \<and> injectValue (optional IAdmin)
        (setComponent (bareRequest True ''POST'') (grantingSession IAdmin 7))
       = Inr (Some 7)
   \<and> injectValue (optional IAdmin)
        (setComponent (bareRequest True ''POST'') (memorySession (str_of ''s'') True Cookie))
       = Inr None"
proof -
  let ?R = "setComponent (bareRequest True ''POST'') (memorySession (str_of ''s'') True Cookie)"
  let ?G = "setComponent (bareRequest True ''POST'') (grantingSession IAdmin 7)"
  have h1: "getComponent ?R = Some (memorySession (str_of ''s'') True Cookie)"
    by (simp add: getComponent_def setComponent_def)
  have h2: "getComponent ?G = Some (grantingSession IAdmin 7)"
    by (simp add: getComponent_def setComponent_def)
  have a: "interface (Authorization_init IAdmin) = IAdmin" "required (Authorization_init IAdmin)"
    by (simp_all add: Authorization_init_def)
  have b: "interface (optional IAdmin) = IAdmin" "\<not> required (optional IAdmin)"
    by (simp_all add: optional_def)
  have n: "authorize (memorySession (str_of ''s'') True Cookie) [IAdmin] IAdmin = None"
    by (simp add: memorySession_def)
  have g: "authorize (grantingSession IAdmin 7) [IAdmin] IAdmin = Some 7"
    by (simp add: grantingSession_def)
  have e: "encode_utf8 (qual IAdmin @ str_of '' DENIED'') = Some ''app.IAdmin DENIED''"
    by code_simp
  from injectValue_denied_or_provider [OF h1, of "Authorization_init IAdmin" "bareRequest True ''POST''"]
    injectValue_denied_or_provider [OF h1, of "optional IAdmin" "bareRequest True ''POST''"]
    injectValue_denied_or_provider [OF h2, of "optional IAdmin" "bareRequest True ''POST''"]
    h1 h2 a b n g e
  show ?thesis by simp
qed

subsection \<open>An identifier that does not load\<close>

text \<open>
  C5. For every request with no session cached on it whose presented ASCII identifier the
  store's \<^verbatim>\<open>loadSession\<close> refuses with NoSuchSession: if the identifier came by
  header, \<^verbatim>\<open>procureSession\<close> raises NoSuchSession, leaves the request as it
  was (no cookie) and makes no \<^verbatim>\<open>newSession\<close> call; if it came by cookie,
  NoSuchSession does not escape and the procurement goes on with \<open>createSession\<close>,
  mechanism Cookie, from the state the failed load left, which is exactly how a request
  presenting no identifier is handled (last part). Whatever the creation rules raise
  themselves (TooLateForCookies) is as for a request without identifier.
\<close>

theorem procureSession_load_failure:
  assumes "getComponent request = None"
    and "classify self request force st = (th, cn, ss, st1, calls1)"
    and "extractIdentifier request th cn = (Some raw, mech)"
    and "decode_ascii raw = Some sid"
    and "loadSession (store self) st1 sid ss mech = (None, st2)"
  shows "(mech = Header \<longrightarrow>
            procureSession self request force st =
              (Inl NoSuchSession, request, st2, calls1 @ [LoadSession sid ss Header])
            \<and> (\<forall>sec m. NewSession sec m \<notin> set (calls1 @ [LoadSession sid ss Header])))
       \<and> (mech = Cookie \<longrightarrow>
            procureSession self request force st =
              (case createSession self request cn ss Cookie st2 of
                 (res, request1, st3, calls3) \<Rightarrow>
                   (res, request1, st3, calls1 @ [LoadSession sid ss Cookie] @ calls3))
            \<and> fst (procureSession self request force st) \<noteq> Inl NoSuchSession)
       \<and> (\<forall>request0 st0 st1' calls1'.
            getComponent request0 = None \<and>
            classify self request0 force st0 = (th, cn, ss, st1', calls1') \<and>
            extractIdentifier request0 th cn = (None, Cookie) \<longrightarrow>
            procureSession self request0 force st0 =
              (case createSession self request0 cn ss Cookie st1' of
                 (res, request1, st3, calls3) \<Rightarrow> (res, request1, st3, calls1' @ calls3)))"
proof (intro conjI impI allI)
  assume "mech = Header"
  with assms show "procureSession self request force st =
      (Inl NoSuchSession, request, st2, calls1 @ [LoadSession sid ss Header])"
    by (simp add: procureSession_def)
next
  fix sec m
  show "NewSession sec m \<notin> set (calls1 @ [LoadSession sid ss Header])"
    using assms(2) by (auto dest: classify_no_NewSession)
next
  assume "mech = Cookie"
  with assms show "procureSession self request force st =
      (case createSession self request cn ss Cookie st2 of
         (res, request1, st3, calls3) \<Rightarrow>
           (res, request1, st3, calls1 @ [LoadSession sid ss Cookie] @ calls3))"
    by (simp add: procureSession_def)
next
  assume "mech = Cookie"
  with assms show "fst (procureSession self request force st) \<noteq> Inl NoSuchSession"
    by (auto simp: procureSession_def createSession_def issueAndCache_def Let_def
        split: prod.splits if_splits)
next
  fix request0 st0 st1' calls1'
  assume "getComponent request0 = None \<and>
            classify self request0 force st0 = (th, cn, ss, st1', calls1') \<and>
            extractIdentifier request0 th cn = (None, Cookie)"
  then show "procureSession self request0 force st0 =
              (case createSession self request0 cn ss Cookie st1' of
                 (res, request1, st3, calls3) \<Rightarrow> (res, request1, st3, calls1' @ calls3))"
    by (simp add: procureSession_def)
qed

theorem procureSession_load_failure_witness:
  "getComponent (withHeader (bareRequest True ''GET'') ''X-Auth-Token'' ''gone'') = None
   \<and> classify (defaultProcurer memoryStore)
        (withHeader (bareRequest True ''GET'') ''X-Auth-Token'' ''gone'') False []
       = (''X-Auth-Token'', ''Klein-Secure-Session'', True, [], [])
   \<and> extractIdentifier (withHeader (bareRequest True ''GET'') ''X-Auth-Token'' ''gone'')
        ''X-Auth-Token'' ''Klein-Secure-Session'' = (Some ''gone'', Header)
   \<and> decode_ascii ''gone'' = Some (str_of ''gone'')
   \<and> loadSession (store (defaultProcurer memoryStore)) [] (str_of ''gone'') True Header = (None, [])
   \<and> procureSession (defaultProcurer memoryStore)
        (withHeader (bareRequest True ''GET'') ''X-Auth-Token'' ''gone'') False []
       = (Inl NoSuchSession, withHeader (bareRequest True ''GET'') ''X-Auth-Token'' ''gone'', [],
          [LoadSession (str_of ''gone'') True Header])
   \<and> getComponent (withCookie (bareRequest True ''GET'') ''Klein-Secure-Session'' ''gone'') = None
   \<and> classify (defaultProcurer memoryStore)
        (withCookie (bareRequest True ''GET'') ''Klein-Secure-Session'' ''gone'') False []
       = (''X-Auth-Token'', ''Klein-Secure-Session'', True, [], [])
   \<and> extractIdentifier (withCookie (bareRequest True ''GET'') ''Klein-Secure-Session'' ''gone'')
        ''X-Auth-Token'' ''Klein-Secure-Session'' = (Some ''gone'', Cookie)
   \<and> loadSession (store (defaultProcurer memoryStore)) [] (str_of ''gone'') True Cookie = (None, [])
   \<and> procureSession (defaultProcurer memoryStore)
        (withCookie (bareRequest True ''GET'') ''Klein-Secure-Session'' ''gone'') False []
       = (Inr (Some (memorySession (str_of ''s'') True Cookie)),
          setComponent
            (addCookie (withCookie (bareRequest True ''GET'') ''Klein-Secure-Session'' ''gone'')
               ''Klein-Secure-Session'' (str_of ''s'') 3600 None ''/'' True True)
            (memorySession (str_of ''s'') True Cookie),
          [str_of ''s''], [LoadSession (str_of ''gone'') True Cookie, NewSession True Cookie])"
proof -
  let ?P = "defaultProcurer memoryStore :: (nat, str list) SessionProcurer"
  let ?H = "withHeader (bareRequest True ''GET'') ''X-Auth-Token'' ''gone''"
  let ?C = "withCookie (bareRequest True ''GET'') ''Klein-Secure-Session'' ''gone''"
  have h1: "getComponent ?H = None" by (simp add: run_defs)
  have h2: "classify ?P ?H False [] = (''X-Auth-Token'', ''Klein-Secure-Session'', True, [], [])"
    by (simp add: run_defs)
  have h3: "extractIdentifier ?H ''X-Auth-Token'' ''Klein-Secure-Session'' = (Some ''gone'', Header)"
    by (simp add: run_defs)
  have h4: "decode_ascii ''gone'' = Some (str_of ''gone'')" by (simp add: run_defs)
  have h5: "loadSession (store ?P) [] (str_of ''gone'') True Header = (None, [])"
    by (simp add: run_defs)
  have c1: "getComponent ?C = None" by (simp add: run_defs)
  have c2: "classify ?P ?C False [] = (''X-Auth-Token'', ''Klein-Secure-Session'', True, [], [])"
    by (simp add: run_defs)
  have c3: "extractIdentifier ?C ''X-Auth-Token'' ''Klein-Secure-Session'' = (Some ''gone'', Cookie)"
    by (simp add: run_defs)
  have c5: "loadSession (store ?P) [] (str_of ''gone'') True Cookie = (None, [])"
    by (simp add: run_defs)
  have cr: "createSession ?P ?C ''Klein-Secure-Session'' True Cookie [] =
      (Inr (Some (memorySession (str_of ''s'') True Cookie)),
          setComponent
            (addCookie ?C ''Klein-Secure-Session'' (str_of ''s'') 3600 None ''/'' True True)
            (memorySession (str_of ''s'') True Cookie),
          [str_of ''s''], [NewSession True Cookie])"
    by (simp add: run_defs)
  from procureSession_load_failure [OF h1 h2 h3 h4 h5] have a: "procureSession ?P ?H False [] =
      (Inl NoSuchSession, ?H, [], [LoadSession (str_of ''gone'') True Header])"
    by simp
  from procureSession_load_failure [OF c1 c2 c3 h4 c5] cr have b: "procureSession ?P ?C False [] =
      (Inr (Some (memorySession (str_of ''s'') True Cookie)),
          setComponent
            (addCookie ?C ''Klein-Secure-Session'' (str_of ''s'') 3600 None ''/'' True True)
            (memorySession (str_of ''s'') True Cookie),
          [str_of ''s''], [LoadSession (str_of ''gone'') True Cookie, NewSession True Cookie])"
    by simp
  from a b h1 h2 h3 h4 h5 c1 c2 c3 c5 show ?thesis by simp
qed

subsection \<open>Disclosure over an insecure transport\<close>



subsection \<open>After the response has started\<close>

text \<open>
  C8. For every procurement call on a request whose response has started writing, no
  cookie is written and the store is not asked for a new session. Where the call would
  have to create a session (GET, \<open>setCookieOnGET\<close>, and no identifier or a cookie
  identifier that failed to load) or to issue a cookie for a changed identifier (GET,
  \<open>setCookieOnGET\<close>, and a loaded session under another identifier than the presented
  one), it raises TooLateForCookies.
\<close>

theorem procureSession_too_late_for_cookies:
  assumes "startedWriting request"
  shows "cookies (fst (snd (procureSession self request force st))) = cookies request
    \<and> (\<forall>sec m. NewSession sec m \<notin> set (snd (snd (snd (procureSession self request force st)))))
    \<and> (getComponent request = None \<and> classify self request force st = (th, cn, ss, st1, calls1)
        \<and> method request = ''GET'' \<and> setCookieOnGET self
        \<and> (extractIdentifier request th cn = (None, Cookie)
           \<or> (\<exists>raw sid st2. extractIdentifier request th cn = (Some raw, Cookie)
                 \<and> decode_ascii raw = Some sid
                 \<and> loadSession (store self) st1 sid ss Cookie = (None, st2))
           \<or> (\<exists>raw mech sid session st2. extractIdentifier request th cn = (Some raw, mech)
                 \<and> decode_ascii raw = Some sid
                 \<and> loadSession (store self) st1 sid ss mech = (Some session, st2)
                 \<and> identifier session \<noteq> sid))
       \<longrightarrow> (\<exists>msg. fst (procureSession self request force st) = Inl (TooLateForCookies msg)))"
proof (intro conjI allI impI)
  show "cookies (fst (snd (procureSession self request force st))) = cookies request"
    by (rule procureSession_started_cookies [OF assms])
next
  fix sec m
  show "NewSession sec m \<notin> set (snd (snd (snd (procureSession self request force st))))"
    by (rule procureSession_started_no_new [OF assms])
next
  assume "getComponent request = None \<and> classify self request force st = (th, cn, ss, st1, calls1)
        \<and> method request = ''GET'' \<and> setCookieOnGET self
        \<and> (extractIdentifier request th cn = (None, Cookie)
           \<or> (\<exists>raw sid st2. extractIdentifier request th cn = (Some raw, Cookie)
                 \<and> decode_ascii raw = Some sid
                 \<and> loadSession (store self) st1 sid ss Cookie = (None, st2))
           \<or> (\<exists>raw mech sid session st2. extractIdentifier request th cn = (Some raw, mech)
                 \<and> decode_ascii raw = Some sid
                 \<and> loadSession (store self) st1 sid ss mech = (Some session, st2)
                 \<and> identifier session \<noteq> sid))"
  then show "\<exists>msg. fst (procureSession self request force st) = Inl (TooLateForCookies msg)"
    using procureSession_started_attempt [OF assms, of self force st th cn ss st1 calls1]
    by blast
qed

theorem procureSession_too_late_for_cookies_witness:
  "startedWriting ((bareRequest True ''GET'')\<lparr>startedWriting := True\<rparr>)
   \<and> getComponent ((bareRequest True ''GET'')\<lparr>startedWriting := True\<rparr>) = None
   \<and> classify (defaultProcurer memoryStore) ((bareRequest True ''GET'')\<lparr>startedWriting := True\<rparr>)
        False [] = (''X-Auth-Token'', ''Klein-Secure-Session'', True, [], [])
   \<and> method ((bareRequest True ''GET'')\<lparr>startedWriting := True\<rparr>) = ''GET''
   \<and> setCookieOnGET (defaultProcurer memoryStore)
   \<and> extractIdentifier ((bareRequest True ''GET'')\<lparr>startedWriting := True\<rparr>) ''X-Auth-Token''
        ''Klein-Secure-Session'' = (None, Cookie)
   \<and> procureSession (defaultProcurer memoryStore)
        ((bareRequest True ''GET'')\<lparr>startedWriting := True\<rparr>) False [] =
       (Inl (TooLateForCookies ''You tried initializing a cookie-based session too late in the request pipeline; the headers were already sent.''),
        (bareRequest True ''GET'')\<lparr>startedWriting := True\<rparr>, [], [])"
proof -
  let ?P = "defaultProcurer memoryStore :: (nat, str list) SessionProcurer"
  let ?R = "(bareRequest True ''GET'')\<lparr>startedWriting := True\<rparr>"
  have h1: "startedWriting ?R" by (simp add: run_defs)
  have h2: "getComponent ?R = None" by (simp add: run_defs)
  have h3: "classify ?P ?R False [] = (''X-Auth-Token'', ''Klein-Secure-Session'', True, [], [])"
    by (simp add: run_defs)
  have h4: "method ?R = ''GET''" by (simp add: run_defs)
  have h5: "setCookieOnGET ?P" by (simp add: run_defs)
  have h6: "extractIdentifier ?R ''X-Auth-Token'' ''Klein-Secure-Session'' = (None, Cookie)"
    by (simp add: run_defs)
  have r: "procureSession ?P ?R False [] =
       (Inl (TooLateForCookies ''You tried initializing a cookie-based session too late in the request pipeline; the headers were already sent.''),
        ?R, [], [])"
    by (simp add: run_defs)
  from procureSession_too_late_for_cookies
         [OF h1, where self = ?P and force = False and st = "[]" and th = "''X-Auth-Token''"
            and cn = "''Klein-Secure-Session''" and ss = True and ?st1.0 = "[]"
            and ?calls1.0 = "[]"]
       h1 h2 h3 h4 h5 h6 r
  show ?thesis by simp
qed

subsection \<open>No session for a request that may not get a cookie\<close>

text \<open>
  C9. For every request with no session cached on it and no usable identifier (none
  presented, or one from a cookie that failed to load) whose method is not GET or whose
  configuration has \<open>setCookieOnGET\<close> disabled, \<^verbatim>\<open>procureSession\<close> returns
  none, leaves the request as it was (so no cookie is written) and makes no
  \<^verbatim>\<open>newSession\<close> call on the store.
\<close>

theorem procureSession_no_creation_returns_none:
  assumes "getComponent request = None"
    and "classify self request force st = (th, cn, ss, st1, calls1)"
    and "method request \<noteq> ''GET'' \<or> \<not> setCookieOnGET self"
    and "extractIdentifier request th cn = (None, Cookie)
         \<or> (\<exists>raw sid. extractIdentifier request th cn = (Some raw, Cookie)
               \<and> decode_ascii raw = Some sid
               \<and> fst (loadSession (store self) st1 sid ss Cookie) = None)"
  shows "fst (procureSession self request force st) = Inr None
       \<and> fst (snd (procureSession self request force st)) = request
       \<and> (\<forall>sec m. NewSession sec m \<notin> set (snd (snd (snd (procureSession self request force st)))))"
proof -
  have c: "\<And>m st'. createSession self request cn ss m st' = (Inr None, request, st', [])"
    using assms(3) by (auto simp: createSession_def)
  from assms(4) show ?thesis
  proof (elim disjE exE conjE)
    assume "extractIdentifier request th cn = (None, Cookie)"
    with assms(1,2) c show ?thesis
      by (auto simp: procureSession_def dest: classify_no_NewSession)
  next
    fix raw sid
    assume a: "extractIdentifier request th cn = (Some raw, Cookie)" "decode_ascii raw = Some sid"
      "fst (loadSession (store self) st1 sid ss Cookie) = None"
    obtain st2 where "loadSession (store self) st1 sid ss Cookie = (None, st2)"
      using a(3) by (cases "loadSession (store self) st1 sid ss Cookie") auto
    with assms(1,2) a c show ?thesis
      by (auto simp: procureSession_def dest: classify_no_NewSession)
  qed
qed

theorem procureSession_no_creation_returns_none_witness:
  "getComponent (withCookie (bareRequest True ''POST'') ''Klein-Secure-Session'' ''gone'') = None
   \<and> classify (defaultProcurer memoryStore)
        (withCookie (bareRequest True ''POST'') ''Klein-Secure-Session'' ''gone'') False []
       = (''X-Auth-Token'', ''Klein-Secure-Session'', True, [], [])
   \<and> method (withCookie (bareRequest True ''POST'') ''Klein-Secure-Session'' ''gone'') \<noteq> ''GET''
   \<and> extractIdentifier (withCookie (bareRequest True ''POST'') ''Klein-Secure-Session'' ''gone'')
        ''X-Auth-Token'' ''Klein-Secure-Session'' = (Some ''gone'', Cookie)
   \<and> decode_ascii ''gone'' = Some (str_of ''gone'')
   \<and> fst (loadSession (store (defaultProcurer memoryStore)) [] (str_of ''gone'') True Cookie) = None
   \<and> procureSession (defaultProcurer memoryStore)
        (withCookie (bareRequest True ''POST'') ''Klein-Secure-Session'' ''gone'') False []
       = (Inr None, withCookie (bareRequest True ''POST'') ''Klein-Secure-Session'' ''gone'', [],
          [LoadSession (str_of ''gone'') True Cookie])
   \<and> getComponent (bareRequest False ''POST'') = None
   \<and> extractIdentifier (bareRequest False ''POST'') ''X-INSECURE-Auth-Token''
        ''Klein-INSECURE-Session'' = (None, Cookie)
   \<and> procureSession (defaultProcurer memoryStore) (bareRequest False ''POST'') False []
       = (Inr None, bareRequest False ''POST'', [], [SentInsecurely []])"
proof -
  let ?P = "defaultProcurer memoryStore :: (nat, str list) SessionProcurer"
  let ?C = "withCookie (bareRequest True ''POST'') ''Klein-Secure-Session'' ''gone''"
  let ?B = "bareRequest False ''POST'' :: nat request"
  have h1: "getComponent ?C = None" by (simp add: run_defs)
  have h2: "classify ?P ?C False [] = (''X-Auth-Token'', ''Klein-Secure-Session'', True, [], [])"
    by (simp add: run_defs)
  have h3: "method ?C \<noteq> ''GET''" by (simp add: run_defs)
  have h4: "extractIdentifier ?C ''X-Auth-Token'' ''Klein-Secure-Session'' = (Some ''gone'', Cookie)"
    by (simp add: run_defs)
  have h5: "decode_ascii ''gone'' = Some (str_of ''gone'')" by (simp add: run_defs)
  have h6: "fst (loadSession (store ?P) [] (str_of ''gone'') True Cookie) = None"
    by (simp add: run_defs)
  have g1: "getComponent ?B = None" by (simp add: run_defs)
  have g2: "classify ?P ?B False [] =
      (''X-INSECURE-Auth-Token'', ''Klein-INSECURE-Session'', False, [], [SentInsecurely []])"
    by (simp add: run_defs)
  have g3: "method ?B \<noteq> ''GET''" by (simp add: run_defs)
  have g4: "extractIdentifier ?B ''X-INSECURE-Auth-Token'' ''Klein-INSECURE-Session'' = (None, Cookie)"
    by (simp add: run_defs)
  have rc: "procureSession ?P ?C False [] =
      (Inr None, ?C, [], [LoadSession (str_of ''gone'') True Cookie])"
    by (simp add: run_defs)
  have rb: "procureSession ?P ?B False [] = (Inr None, ?B, [], [SentInsecurely []])"
    by (simp add: run_defs)
  have d1: "method ?C \<noteq> ''GET'' \<or> \<not> setCookieOnGET ?P" using h3 by simp
  have d2: "extractIdentifier ?C ''X-Auth-Token'' ''Klein-Secure-Session'' = (None, Cookie)
         \<or> (\<exists>raw sid. extractIdentifier ?C ''X-Auth-Token'' ''Klein-Secure-Session'' = (Some raw, Cookie)
               \<and> decode_ascii raw = Some sid
               \<and> fst (loadSession (store ?P) [] sid True Cookie) = None)"
    using h4 h5 h6 by blast
  have e1: "method ?B \<noteq> ''GET'' \<or> \<not> setCookieOnGET ?P" using g3 by simp
  have e2: "extractIdentifier ?B ''X-INSECURE-Auth-Token'' ''Klein-INSECURE-Session'' = (None, Cookie)
         \<or> (\<exists>raw sid. extractIdentifier ?B ''X-INSECURE-Auth-Token'' ''Klein-INSECURE-Session'' = (Some raw, Cookie)
               \<and> decode_ascii raw = Some sid
               \<and> fst (loadSession (store ?P) [] sid False Cookie) = None)"
    using g4 by blast
  from procureSession_no_creation_returns_none [OF h1 h2 d1 d2]
       procureSession_no_creation_returns_none [OF g1 g2 e1 e2]
       h1 h2 h3 h4 h5 h6 g1 g4 rc rb
  show ?thesis by simp
qed

subsection \<open>The mechanism of a new session\<close>

text \<open>
  C10. Whenever \<^verbatim>\<open>procureSession\<close> calls the store's
  \<^verbatim>\<open>newSession\<close>, the mechanism it passes is Cookie, never Header: with a
  header identifier the procurement either loads a session or raises, and does not reach
  the creation.
\<close>

theorem procureSession_newSession_mechanism_Cookie:
  "NewSession sec m \<in> set (snd (snd (snd (procureSession self request force st)))) \<Longrightarrow>
     m = Cookie"
proof (cases m)
  case Cookie
  then show ?thesis by simp
next
  case Header
  assume "NewSession sec m \<in> set (snd (snd (snd (procureSession self request force st))))"
  with Header show ?thesis
    by (auto simp: procureSession_def split: option.splits prod.splits if_splits
        dest!: classify_calls createSession_calls extractIdentifier_None_Cookie)
qed

theorem procureSession_newSession_mechanism_Cookie_witness:
  "snd (snd (snd (procureSession (defaultProcurer memoryStore) (bareRequest False ''GET'') False [])))
     = [SentInsecurely [], NewSession False Cookie]
   \<and> NewSession False Cookie \<in> set (snd (snd (snd
        (procureSession (defaultProcurer memoryStore) (bareRequest False ''GET'') False []))))"
proof -
  let ?P = "defaultProcurer memoryStore :: (nat, str list) SessionProcurer"
  have c: "snd (snd (snd (procureSession ?P (bareRequest False ''GET'') False [])))
     = [SentInsecurely [], NewSession False Cookie]"
    by (simp add: run_defs)
  then have h: "NewSession False Cookie \<in> set (snd (snd (snd
        (procureSession ?P (bareRequest False ''GET'') False []))))"
    by simp
  from procureSession_newSession_mechanism_Cookie [OF h] c h show ?thesis by simp
qed

end
